theory Spec2Isabelle
  imports Complex_Main "HOL-Library.Word"
begin

section \<open>Autonomous sailing: guidance module and navigation\<close>

text \<open>
  The C sources \<^verbatim>\<open>guidance_module.c\<close> and \<^verbatim>\<open>navigation.c\<close> compute with
  \<^verbatim>\<open>float\<close>, \<^verbatim>\<open>double\<close> and \<^verbatim>\<open>int32_t\<close>.  In this development a
  \<^verbatim>\<open>float\<close> or \<^verbatim>\<open>double\<close> is a \<^typ>\<open>real\<close>: arithmetic is exact, there is no
  rounding, no infinity and no NaN, a literal such as \<^verbatim>\<open>0.523598f\<close> stands for its
  decimal value, and \<open>x / 0\<close> is \<open>0\<close> as everywhere in HOL
  (IEEE arithmetic gives an infinity or NaN there), so the theorems that depend on a quotient
  assume its denominator is not zero.  An \<^verbatim>\<open>int32_t\<close> is a \<^typ>\<open>32 word\<close> read
  with \<^const>\<open>sint\<close>; the conversion from \<^verbatim>\<open>float\<close> to \<^verbatim>\<open>int32_t\<close> truncates towards
  zero and is meaningful only when the truncated value fits (C leaves the other case
  undefined; the model wraps), so the theorems about converted values assume that it fits.
  The sail command of a control cycle is modelled a second time with infinities and NaN,
  to follow the code where a quantum is a quotient by zero.
\<close>

subsection \<open>Constants and number conversions\<close>

definition M_PI_F :: real where
  "M_PI_F = 3.14159265358979323846"

text \<open>
  The header \<^verbatim>\<open>guidance_module.h\<close> with the macros \<^verbatim>\<open>RUDDER_SATURATION\<close>,
  \<^verbatim>\<open>SAIL_SATURATION\<close>, \<^verbatim>\<open>RUDDER_45_LEFT\<close> and \<^verbatim>\<open>SAIL_20\<close> is not part of the
  sources at hand, so the four values are parameters of every function that uses them.
\<close>

record guidance_consts =
  RUDDER_SATURATION :: real
  SAIL_SATURATION :: real
  RUDDER_45_LEFT :: real
  SAIL_20 :: real

definition float_to_int32 :: "real \<Rightarrow> 32 word" where
  "float_to_int32 x = word_of_int (if 0 \<le> x then \<lfloor>x\<rfloor> else \<lceil>x\<rceil>)"

definition int32_to_float :: "32 word \<Rightarrow> real" where
  "int32_to_float w = real_of_int (sint w)"

definition fits_int32 :: "real \<Rightarrow> bool" where
  "fits_int32 x = (- (2 ^ 31) - 1 < x \<and> x < 2 ^ 31)"

subsection \<open>Data of the guidance module\<close>

record tack_data_s =
  boat_is_tacking :: bool
  tack_rudder_command :: real
  roll_before_tack :: "real list"
  yaw_before_tack :: "real list"
  roll_stop_tack_value :: real
  yaw_stop_tack_value :: real

record sail_controller_data_s =
  position_quantum :: real
  command_quantum :: real

record pi_rudder_data_s =
  pi_p :: real
  pi_i :: real
  pi_kaw :: real
  pi_cp :: real
  pi_ci :: real
  use_conditional :: bool
  last_command :: real
  sum_error_pi :: real

datatype notice = Notify_tack_completed | Send_log_info string

record guidance_state =
  tack_data :: tack_data_s
  sail_controller_data :: sail_controller_data_s
  pi_rudder_data :: pi_rudder_data_s
  txt_msg :: string
  notices :: "notice list"

record reference_actions_s =
  alpha_star :: real
  should_tack :: bool

text \<open>
  The structures of \<^verbatim>\<open>parameters.h\<close> and \<^verbatim>\<open>topics_handler.h\<close> are declared outside
  the two C files; the records below hold the fields that the functions read and write.
\<close>

record parameters_qgc =
  sail_servo :: real

record vehicle_attitude_s =
  roll :: real
  yaw :: real

record boat_weather_station_s =
  roll_r :: real
  heading_tn :: real

record actuator_controls_s =
  control :: "real list"

record boat_guidance_debug_s =
  dbg_timestamp :: "64 word"
  dbg_alpha :: real
  dbg_rudder_action :: real
  dbg_sail_action :: real
  dbg_twd_mean :: real
  dbg_app_mean :: real

record vehicle_global_position_s =
  lat :: real
  lon :: real
  alt :: real

record structs_topics_s =
  att :: vehicle_attitude_s
  boat_weather_station :: boat_weather_station_s
  actuators :: actuator_controls_s
  boat_guidance_debug :: boat_guidance_debug_s
  gps_filtered :: vehicle_global_position_s

text \<open>
  What the collaborators outside the guidance module return during one control cycle
  (\<^verbatim>\<open>controller_data.h\<close> and the system clock).
\<close>

record controller_env =
  get_alpha :: real
  get_alpha_yaw :: real
  get_app_wind :: real
  get_twd :: real
  hrt_absolute_time :: "64 word"

definition tack_data_init :: tack_data_s where
  "tack_data_init =
     \<lparr>boat_is_tacking = False, tack_rudder_command = 0,
      roll_before_tack = [0, 0], yaw_before_tack = [0, 0],
      roll_stop_tack_value = 2, yaw_stop_tack_value = 1.04\<rparr>"

definition sail_controller_data_init :: "guidance_consts \<Rightarrow> sail_controller_data_s" where
  "sail_controller_data_init K =
     \<lparr>position_quantum = M_PI_F / 4, command_quantum = SAIL_SATURATION K / 4\<rparr>"

definition pi_rudder_data_init :: pi_rudder_data_s where
  "pi_rudder_data_init =
     \<lparr>pi_p = 0, pi_i = 0, pi_kaw = 0.5, pi_cp = 1, pi_ci = 1,
      use_conditional = True, last_command = 0, sum_error_pi = 0\<rparr>"

definition guidance_state_init :: "guidance_consts \<Rightarrow> guidance_state" where
  "guidance_state_init K =
     \<lparr>tack_data = tack_data_init, sail_controller_data = sail_controller_data_init K,
      pi_rudder_data = pi_rudder_data_init, txt_msg = [], notices = []\<rparr>"

subsection \<open>Functions of the guidance module\<close>

definition set_stop_tack :: "tack_data_s \<Rightarrow> real \<Rightarrow> real \<Rightarrow> tack_data_s" where
  "set_stop_tack td roll_stop yaw_stop =
     td\<lparr>roll_stop_tack_value := roll_stop,
        yaw_stop_tack_value := yaw_stop * M_PI_F / 180\<rparr>"

definition rudder_saturation :: "guidance_consts \<Rightarrow> real \<Rightarrow> real" where
  "rudder_saturation K command =
     (if command > RUDDER_SATURATION K then RUDDER_SATURATION K
      else if command < - RUDDER_SATURATION K then - RUDDER_SATURATION K
      else command)"

definition pi_controller ::
  "guidance_consts \<Rightarrow> pi_rudder_data_s \<Rightarrow> real \<Rightarrow> real \<Rightarrow> real \<times> pi_rudder_data_s" where
  "pi_controller K pd ref meas =
     (let err = ref - meas in
      if use_conditional pd then
        let abs_error = (if err > 0 then err else - err);
            pd1 = pd\<lparr>sum_error_pi := sum_error_pi pd + err\<rparr>;
            i_gain = pi_i pd1 / (1 + pi_ci pd1 * err * err);
            integral_part = i_gain * sum_error_pi pd1;
            p_gain = pi_p pd1 / (1 + pi_cp pd1 * abs_error);
            proportional_part = p_gain * err;
            action = proportional_part + integral_part
        in (action, pd1\<lparr>last_command := action\<rparr>)
      else
        let input_kaw = rudder_saturation K (last_command pd) - last_command pd;
            pd1 = pd\<lparr>sum_error_pi := sum_error_pi pd + (err + pi_kaw pd * input_kaw)\<rparr>;
            integral_part = pi_i pd1 * sum_error_pi pd1;
            proportional_part = pi_p pd1 * err;
            action = proportional_part + integral_part
        in (action, pd1\<lparr>last_command := action\<rparr>))"

definition set_pi_rudder_data ::
  "guidance_state \<Rightarrow> real \<Rightarrow> real \<Rightarrow> real \<Rightarrow> real \<Rightarrow> 32 word \<Rightarrow> real \<Rightarrow> guidance_state" where
  "set_pi_rudder_data gs p i cp ci use_cond kaw =
     (let pd1 = (pi_rudder_data gs)\<lparr>pi_p := p, pi_i := i, pi_kaw := kaw, pi_cp := cp, pi_ci := ci\<rparr>;
          switched = ((use_conditional pd1 \<and> sint use_cond \<le> 0) \<or>
                      (\<not> use_conditional pd1 \<and> sint use_cond > 0));
          msg = (if sint use_cond > 0 then ''Switched to PI with conditional integration.''
                 else ''Switched to normal PI with anti wind-up gain.'');
          pd2 = (if switched then pd1\<lparr>last_command := 0, sum_error_pi := 0\<rparr> else pd1);
          gs1 = (if switched then gs\<lparr>txt_msg := msg, notices := notices gs @ [Send_log_info msg]\<rparr>
                 else gs)
      in gs1\<lparr>pi_rudder_data := pd2\<lparr>use_conditional := (sint use_cond > 0)\<rparr>\<rparr>)"

definition roll_stop_tack :: "tack_data_s \<Rightarrow> real \<Rightarrow> nat \<Rightarrow> bool" where
  "roll_stop_tack td angle index_roll =
     (if roll_before_tack td ! index_roll > 0 then
        (if angle \<le> - (roll_before_tack td ! index_roll) / roll_stop_tack_value td
         then True else False)
      else if roll_before_tack td ! index_roll < 0 then
        (if angle \<ge> - (roll_before_tack td ! index_roll) / roll_stop_tack_value td
         then True else False)
      else False)"

definition yaw_stop_tack :: "tack_data_s \<Rightarrow> real \<Rightarrow> nat \<Rightarrow> bool" where
  "yaw_stop_tack td angle index_yaw =
     (if tack_rudder_command td > 0 then
        (let angle1 = (if yaw_before_tack td ! index_yaw < 0
                       then (if angle < 0 then angle else - 2 * M_PI_F + angle)
                       else angle)
         in angle1 - yaw_before_tack td ! index_yaw \<le> - yaw_stop_tack_value td)
      else
        (let angle1 = (if yaw_before_tack td ! index_yaw > 0
                       then (if angle > 0 then angle else 2 * M_PI_F + angle)
                       else angle)
         in angle1 - yaw_before_tack td ! index_yaw \<ge> yaw_stop_tack_value td))"

definition is_tack_completed :: "tack_data_s \<Rightarrow> structs_topics_s \<Rightarrow> bool" where
  "is_tack_completed td strs =
     (let first_cond = (roll_stop_tack td (roll (att strs)) 0 \<or>
                        roll_stop_tack td (roll_r (boat_weather_station strs)) 1);
          second_cond = (yaw_stop_tack td (yaw (att strs)) 0 \<or>
                         yaw_stop_tack td (heading_tn (boat_weather_station strs)) 1)
      in first_cond \<and> second_cond)"

definition helmsman_tack_p2s :: "guidance_consts \<Rightarrow> real \<Rightarrow> real \<times> real" where
  "helmsman_tack_p2s K a =
     (let rud =
        (if a \<le> - 0.523598 then RUDDER_45_LEFT K
         else if a \<le> 0 then (- RUDDER_45_LEFT K / 0.523598) * a
         else if a \<le> 0.31416 then (RUDDER_45_LEFT K / 0.31416) * a
         else if a \<le> 0.38397 then RUDDER_45_LEFT K
         else if a \<le> 0.69813 then
           (- RUDDER_45_LEFT K / 0.31416) * a + (RUDDER_45_LEFT K / 0.31416) * 0.69813
         else 0);
          sails =
        (if a \<le> - 0.523598 then (- SAIL_20 K / 1.047197) * a - SAIL_20 K * 0.5
         else if a \<le> 0.0872664 then 0
         else if a \<le> 0.270526 then (SAIL_20 K / 0.183259) * a - (SAIL_20 K * 0.476190)
         else if a \<le> 0.3403392 then SAIL_20 K
         else if a \<le> 0.523598 then (- SAIL_20 K / 0.183259) * a + (SAIL_20 K * 2.857142857)
         else 0)
      in (rud, sails))"

definition helmsman_tack_s2p :: "guidance_consts \<Rightarrow> real \<Rightarrow> real \<times> real" where
  "helmsman_tack_s2p K a =
     (let alpha_port = - a;
          (rudder_port, sails) = helmsman_tack_p2s K alpha_port
      in (- rudder_port, sails))"

definition sail_controller ::
  "guidance_consts \<Rightarrow> controller_env \<Rightarrow> sail_controller_data_s \<Rightarrow> real" where
  "sail_controller K e sd =
     (let mean_apparent = get_app_wind e;
          abs_angle = (if mean_apparent > 0 then mean_apparent else - mean_apparent);
          sector = float_to_int32 (abs_angle / position_quantum sd);
          command = SAIL_SATURATION K - int32_to_float sector * command_quantum sd
      in command)"

definition set_sail_positions ::
  "guidance_consts \<Rightarrow> sail_controller_data_s \<Rightarrow> 32 word \<Rightarrow> sail_controller_data_s" where
  "set_sail_positions K sd num =
     sd\<lparr>position_quantum := M_PI_F / int32_to_float num,
        command_quantum := SAIL_SATURATION K / int32_to_float num\<rparr>"

text \<open>
  \<^verbatim>\<open>tack_action\<close> writes the two commands through its pointer arguments; the model returns
  them after the updated module state and reference.
\<close>

definition tack_action ::
  "guidance_consts \<Rightarrow> controller_env \<Rightarrow> guidance_state \<Rightarrow> reference_actions_s \<Rightarrow>
   structs_topics_s \<Rightarrow> guidance_state \<times> reference_actions_s \<times> real \<times> real" where
  "tack_action K e gs ref_act strs =
     (let td = tack_data gs;
          (gs1, ref1) =
            (if boat_is_tacking td then
               (if is_tack_completed td strs then
                  (gs\<lparr>tack_data := td\<lparr>boat_is_tacking := False\<rparr>,
                      txt_msg := ''Tack completed.'',
                      notices := notices gs @
                        [Notify_tack_completed, Send_log_info ''Tack completed.'']\<rparr>,
                   ref_act\<lparr>should_tack := False\<rparr>)
                else (gs, ref_act))
             else
               (gs\<lparr>tack_data := td
                   \<lparr>boat_is_tacking := True,
                    roll_before_tack :=
                      (roll_before_tack td)
                        [0 := roll (att strs), 1 := roll_r (boat_weather_station strs)],
                    yaw_before_tack :=
                      (yaw_before_tack td)
                        [0 := yaw (att strs), 1 := heading_tn (boat_weather_station strs)]\<rparr>\<rparr>,
                ref_act));
          sailing_at_port_haul = (if - alpha_star ref1 < 0 then True else False);
          alpha_yaw = get_alpha_yaw e;
          (rud, sails) = (if sailing_at_port_haul then helmsman_tack_p2s K alpha_yaw
                          else helmsman_tack_s2p K alpha_yaw)
      in (gs1, ref1, rud, sails))"

definition guidance_module ::
  "guidance_consts \<Rightarrow> controller_env \<Rightarrow> guidance_state \<Rightarrow> reference_actions_s \<Rightarrow>
   parameters_qgc \<Rightarrow> structs_topics_s \<Rightarrow> guidance_state \<times> reference_actions_s \<times> structs_topics_s" where
  "guidance_module K e gs ref_act param_qgc strs =
     (let alpha_v = get_alpha e;
          (gs1, ref1, rudder1, sail1) =
            (if should_tack ref_act then tack_action K e gs ref_act strs
             else (gs, ref_act, 0, 0));
          (gs2, rudder2, sail2) =
            (if \<not> should_tack ref1 then
               (let (rud, pd) = pi_controller K (pi_rudder_data gs1) (alpha_star ref1) alpha_v;
                    sl = (if sail_servo param_qgc < 0
                          then sail_controller K e (sail_controller_data gs1)
                          else sail_servo param_qgc)
                in (gs1\<lparr>pi_rudder_data := pd\<rparr>, rud, sl))
             else (gs1, rudder1, sail1));
          rudder_command = rudder_saturation K rudder2;
          sail_command = (if sail2 < 0 then 0
                          else if sail2 > SAIL_SATURATION K then SAIL_SATURATION K
                          else sail2);
          strs1 = strs\<lparr>actuators := (actuators strs)
                         \<lparr>control := (control (actuators strs))
                                       [0 := rudder_command, 3 := sail_command]\<rparr>\<rparr>;
          strs2 = strs1\<lparr>boat_guidance_debug := (boat_guidance_debug strs1)
                          \<lparr>dbg_timestamp := hrt_absolute_time e,
                           dbg_alpha := alpha_v,
                           dbg_rudder_action := rudder_command,
                           dbg_sail_action := sail_command,
                           dbg_twd_mean := get_twd e,
                           dbg_app_mean := get_app_wind e\<rparr>\<rparr>
      in (gs2, ref1, strs2))"

subsection \<open>Navigation: geodetic coordinates to the race frame\<close>

record ned_to_race_t =
  sin_mwd :: real
  cos_mwd :: real
  n0_dm :: "32 word"
  e0_dm :: "32 word"
  mean_wind_angle_r :: real

record navigation_state =
  cosPhi :: real
  sinPhi :: real
  cosLambda :: real
  sinLambda :: real
  x0_dm :: "32 word"
  y0_dm :: "32 word"
  z0_dm :: "32 word"
  ned_to_race_s :: ned_to_race_t

record local_position_race_s =
  x_race_m :: real
  y_race_m :: real

definition squared_one_minus_flatness_m :: real where
  "squared_one_minus_flatness_m = 0.99330561993959"

definition squared_earth_radius_m :: real where
  "squared_earth_radius_m = 40680631590769"

definition deg2rad :: real where
  "deg2rad = 0.0174532925199433"

definition E7 :: real where
  "E7 = 10000000"

definition E3 :: real where
  "E3 = 1000"

definition E1 :: real where
  "E1 = 10"

definition navigation_state_init :: navigation_state where
  "navigation_state_init =
     \<lparr>cosPhi = 0, sinPhi = 0, cosLambda = 0, sinLambda = 0,
      x0_dm = 0, y0_dm = 0, z0_dm = 0,
      ned_to_race_s = \<lparr>sin_mwd = 0, cos_mwd = 0, n0_dm = 0, e0_dm = 0,
                        mean_wind_angle_r = 0\<rparr>\<rparr>"

text \<open>The two-argument arc tangent of the C library, as a function on the reals.\<close>

definition atan2 :: "real \<Rightarrow> real \<Rightarrow> real" where
  "atan2 y x =
     (if x > 0 then arctan (y / x)
      else if x < 0 then (if y \<ge> 0 then arctan (y / x) + pi else arctan (y / x) - pi)
      else if y > 0 then pi / 2
      else if y < 0 then - pi / 2
      else 0)"

definition degE7_to_rad :: "32 word \<Rightarrow> real" where
  "degE7_to_rad deg_e7 = (int32_to_float deg_e7 / E7) * deg2rad"

definition geo_to_ecef :: "32 word \<Rightarrow> 32 word \<Rightarrow> 32 word \<Rightarrow> 32 word \<times> 32 word \<times> 32 word" where
  "geo_to_ecef lat_d_e7 lon_d_e7 alt_mm =
     (let mu_r = degE7_to_rad lat_d_e7;
          l_r = degE7_to_rad lon_d_e7;
          h_m = int32_to_float alt_mm / E3;
          lab_s_r = atan2 (squared_one_minus_flatness_m * tan mu_r) 1;
          r_s_m = sqrt (squared_earth_radius_m /
                    (1 + ((1 / squared_one_minus_flatness_m) - 1) * (sin lab_s_r) ^ 2))
      in (float_to_int32 ((r_s_m * cos lab_s_r * cos l_r + h_m * cos mu_r * cos l_r) * E1),
          float_to_int32 ((r_s_m * cos lab_s_r * sin l_r + h_m * cos mu_r * sin l_r) * E1),
          float_to_int32 ((r_s_m * sin lab_s_r + h_m * sin mu_r) * E1)))"

definition ecef_to_ned ::
  "navigation_state \<Rightarrow> 32 word \<Rightarrow> 32 word \<Rightarrow> 32 word \<Rightarrow> 32 word \<times> 32 word \<times> 32 word" where
  "ecef_to_ned nav x_dm y_dm z_dm =
     (let u_dm = x_dm - x0_dm nav;
          v_dm = y_dm - y0_dm nav;
          w_dm = z_dm - z0_dm nav;
          t_dm = cosLambda nav * int32_to_float u_dm + sinLambda nav * int32_to_float v_dm
      in (float_to_int32 (- sinPhi nav * t_dm + cosPhi nav * int32_to_float w_dm),
          float_to_int32 (- sinLambda nav * int32_to_float u_dm +
                          cosLambda nav * int32_to_float v_dm),
          float_to_int32 (- cosPhi nav * t_dm - sinPhi nav * int32_to_float w_dm)))"

definition geo_to_ned ::
  "navigation_state \<Rightarrow> vehicle_global_position_s \<Rightarrow> 32 word \<times> 32 word \<times> 32 word" where
  "geo_to_ned nav gps =
     (let lat_d_e7 = float_to_int32 (lat gps * E7);
          lon_d_e7 = float_to_int32 (lon gps * E7);
          alt_mm = float_to_int32 (alt gps * E3);
          (x_dm, y_dm, z_dm) = geo_to_ecef lat_d_e7 lon_d_e7 alt_mm
      in ecef_to_ned nav x_dm y_dm z_dm)"

definition set_ref0 :: "navigation_state \<Rightarrow> 32 word \<Rightarrow> 32 word \<Rightarrow> 32 word \<Rightarrow> navigation_state" where
  "set_ref0 nav lat0_d_e7 lon0_d_e7 alt0_mm =
     (let (x, y, z) = geo_to_ecef lat0_d_e7 lon0_d_e7 alt0_mm
      in nav\<lparr>cosPhi := cos (degE7_to_rad lat0_d_e7),
             sinPhi := sin (degE7_to_rad lat0_d_e7),
             cosLambda := cos (degE7_to_rad lon0_d_e7),
             sinLambda := sin (degE7_to_rad lon0_d_e7),
             x0_dm := x, y0_dm := y, z0_dm := z\<rparr>)"

definition set_mean_wind_angle :: "navigation_state \<Rightarrow> real \<Rightarrow> navigation_state" where
  "set_mean_wind_angle nav mean_wind =
     nav\<lparr>ned_to_race_s := (ned_to_race_s nav)
           \<lparr>cos_mwd := cos mean_wind, sin_mwd := sin mean_wind,
            mean_wind_angle_r := mean_wind\<rparr>\<rparr>"

definition get_mean_wind_angle :: "navigation_state \<Rightarrow> real" where
  "get_mean_wind_angle nav = mean_wind_angle_r (ned_to_race_s nav)"

definition set_pos_top_mark ::
  "navigation_state \<Rightarrow> 32 word \<Rightarrow> 32 word \<Rightarrow> 32 word \<Rightarrow> navigation_state" where
  "set_pos_top_mark nav lat_d_e7 lon_d_e7 alt_mm =
     (let temp_pos = \<lparr>lat = int32_to_float lat_d_e7 / E7,
                      lon = int32_to_float lon_d_e7 / E7,
                      alt = int32_to_float alt_mm / E3\<rparr>;
          (north_dm, east_dm, down_dm) = geo_to_ned nav temp_pos
      in nav\<lparr>ned_to_race_s := (ned_to_race_s nav)\<lparr>n0_dm := north_dm, e0_dm := east_dm\<rparr>\<rparr>)"

definition geo_to_race ::
  "navigation_state \<Rightarrow> vehicle_global_position_s \<Rightarrow> 32 word \<times> 32 word" where
  "geo_to_race nav gps =
     (let (north_dm, east_dm, down_dm) = geo_to_ned nav gps;
          r = ned_to_race_s nav
      in (float_to_int32
            (- cos_mwd r * int32_to_float north_dm - sin_mwd r * int32_to_float east_dm +
             cos_mwd r * int32_to_float (n0_dm r) + sin_mwd r * int32_to_float (e0_dm r)),
          float_to_int32
            (- sin_mwd r * int32_to_float north_dm + cos_mwd r * int32_to_float east_dm +
             sin_mwd r * int32_to_float (n0_dm r) - cos_mwd r * int32_to_float (e0_dm r))))"

definition navigation_module ::
  "navigation_state \<Rightarrow> structs_topics_s \<Rightarrow> local_position_race_s \<Rightarrow> local_position_race_s" where
  "navigation_module nav strs lp =
     (let (x_dm, y_dm) = geo_to_race nav (gps_filtered strs)
      in lp\<lparr>x_race_m := int32_to_float x_dm / E1, y_race_m := int32_to_float y_dm / E1\<rparr>)"

subsection \<open>The control task: operations on the whole program state\<close>

text \<open>
  The guidance module keeps its data in static variables; the reference action and the
  topic structures belong to the control task, which passes pointers to them.  An
  operation is one call from outside: a setter called when a parameter changes, the path
  planner or a sensor topic writing its data, or one control cycle of
  \<^verbatim>\<open>guidance_module\<close>.
\<close>

record program_state =
  ps_guidance :: guidance_state
  ps_ref_act :: reference_actions_s
  ps_strs :: structs_topics_s

datatype operation =
    Op_set_stop_tack real real
  | Op_set_pi_rudder_data real real real real "32 word" real
  | Op_set_sail_positions "32 word"
  | Op_path_planning reference_actions_s
  | Op_sensors vehicle_attitude_s boat_weather_station_s
  | Op_guidance_module controller_env parameters_qgc

fun step :: "guidance_consts \<Rightarrow> program_state \<Rightarrow> operation \<Rightarrow> program_state" where
  "step K s (Op_set_stop_tack roll_stop yaw_stop) =
     s\<lparr>ps_guidance := (ps_guidance s)
         \<lparr>tack_data := set_stop_tack (tack_data (ps_guidance s)) roll_stop yaw_stop\<rparr>\<rparr>"
| "step K s (Op_set_pi_rudder_data p i cp ci use_cond kaw) =
     s\<lparr>ps_guidance := set_pi_rudder_data (ps_guidance s) p i cp ci use_cond kaw\<rparr>"
| "step K s (Op_set_sail_positions num) =
     s\<lparr>ps_guidance := (ps_guidance s)
         \<lparr>sail_controller_data :=
            set_sail_positions K (sail_controller_data (ps_guidance s)) num\<rparr>\<rparr>"
| "step K s (Op_path_planning r) = s\<lparr>ps_ref_act := r\<rparr>"
| "step K s (Op_sensors a w) =
     s\<lparr>ps_strs := (ps_strs s)\<lparr>att := a, boat_weather_station := w\<rparr>\<rparr>"
| "step K s (Op_guidance_module e param_qgc) =
     (let (gs, r, strs) = guidance_module K e (ps_guidance s) (ps_ref_act s) param_qgc (ps_strs s)
      in s\<lparr>ps_guidance := gs, ps_ref_act := r, ps_strs := strs\<rparr>)"

fun run :: "guidance_consts \<Rightarrow> program_state \<Rightarrow> operation list \<Rightarrow> program_state" where
  "run K s [] = s"
| "run K s (x # xs) = run K (step K s x) xs"

definition structs_topics_init :: structs_topics_s where
  "structs_topics_init =
     \<lparr>att = \<lparr>roll = 0, yaw = 0\<rparr>,
      boat_weather_station = \<lparr>roll_r = 0, heading_tn = 0\<rparr>,
      actuators = \<lparr>control = [0, 0, 0, 0, 0, 0, 0, 0]\<rparr>,
      boat_guidance_debug = \<lparr>dbg_timestamp = 0, dbg_alpha = 0, dbg_rudder_action = 0,
                              dbg_sail_action = 0, dbg_twd_mean = 0, dbg_app_mean = 0\<rparr>,
      gps_filtered = \<lparr>lat = 0, lon = 0, alt = 0\<rparr>\<rparr>"

definition program_state_init :: "guidance_consts \<Rightarrow> program_state" where
  "program_state_init K =
     \<lparr>ps_guidance = guidance_state_init K,
      ps_ref_act = \<lparr>alpha_star = 30, should_tack = False\<rparr>,
      ps_strs = structs_topics_init\<rparr>"

subsection \<open>Infinity and NaN in the sail command\<close>

text \<open>
  The sail command of a cycle that does not tack, from \<^verbatim>\<open>set_sail_positions\<close> over
  \<^verbatim>\<open>sail_controller\<close> to the clamp and the write of \<^verbatim>\<open>control[3]\<close> in
  \<^verbatim>\<open>guidance_module\<close>, is modelled a second time, with the special values of IEEE
  arithmetic: a quotient by zero is an infinity, or NaN when the dividend is zero too, zero
  times an infinity is NaN, and every comparison with NaN is false.  Rounding is left out
  as before.  The sign of a zero is not kept: a zero divisor counts as \<^verbatim>\<open>+0.0\<close>, which is
  what the conversion of the integer \<open>0\<close> gives.  The conversion to \<^verbatim>\<open>int32_t\<close> returns
  \<open>None\<close> where C leaves it undefined.
\<close>

datatype cfloat = Finite real | PInf | NInf | NaN

fun cf_neg :: "cfloat \<Rightarrow> cfloat" where
  "cf_neg (Finite x) = Finite (- x)"
| "cf_neg PInf = NInf"
| "cf_neg NInf = PInf"
| "cf_neg NaN = NaN"

fun cf_less :: "cfloat \<Rightarrow> cfloat \<Rightarrow> bool" where
  "cf_less NaN b = False"
| "cf_less a NaN = False"
| "cf_less (Finite x) (Finite y) = (x < y)"
| "cf_less (Finite x) PInf = True"
| "cf_less (Finite x) NInf = False"
| "cf_less PInf b = False"
| "cf_less NInf (Finite y) = True"
| "cf_less NInf PInf = True"
| "cf_less NInf NInf = False"

fun cf_add :: "cfloat \<Rightarrow> cfloat \<Rightarrow> cfloat" where
  "cf_add NaN b = NaN"
| "cf_add a NaN = NaN"
| "cf_add (Finite x) (Finite y) = Finite (x + y)"
| "cf_add (Finite x) PInf = PInf"
| "cf_add (Finite x) NInf = NInf"
| "cf_add PInf (Finite y) = PInf"
| "cf_add NInf (Finite y) = NInf"
| "cf_add PInf PInf = PInf"
| "cf_add NInf NInf = NInf"
| "cf_add PInf NInf = NaN"
| "cf_add NInf PInf = NaN"

definition cf_sub :: "cfloat \<Rightarrow> cfloat \<Rightarrow> cfloat" where
  "cf_sub a b = cf_add a (cf_neg b)"

fun cf_mul :: "cfloat \<Rightarrow> cfloat \<Rightarrow> cfloat" where
  "cf_mul NaN b = NaN"
| "cf_mul a NaN = NaN"
| "cf_mul (Finite x) (Finite y) = Finite (x * y)"
| "cf_mul (Finite x) PInf = (if x = 0 then NaN else if x > 0 then PInf else NInf)"
| "cf_mul (Finite x) NInf = (if x = 0 then NaN else if x > 0 then NInf else PInf)"
| "cf_mul PInf (Finite y) = (if y = 0 then NaN else if y > 0 then PInf else NInf)"
| "cf_mul NInf (Finite y) = (if y = 0 then NaN else if y > 0 then NInf else PInf)"
| "cf_mul PInf PInf = PInf"
| "cf_mul NInf NInf = PInf"
| "cf_mul PInf NInf = NInf"
| "cf_mul NInf PInf = NInf"

fun cf_div :: "cfloat \<Rightarrow> cfloat \<Rightarrow> cfloat" where
  "cf_div NaN b = NaN"
| "cf_div a NaN = NaN"
| "cf_div (Finite x) (Finite y) =
     (if y = 0 then (if x = 0 then NaN else if x > 0 then PInf else NInf)
      else Finite (x / y))"
| "cf_div (Finite x) PInf = Finite 0"
| "cf_div (Finite x) NInf = Finite 0"
| "cf_div PInf (Finite y) = (if y < 0 then NInf else PInf)"
| "cf_div NInf (Finite y) = (if y < 0 then PInf else NInf)"
| "cf_div PInf PInf = NaN"
| "cf_div PInf NInf = NaN"
| "cf_div NInf PInf = NaN"
| "cf_div NInf NInf = NaN"

definition cf_of_int32 :: "32 word \<Rightarrow> cfloat" where
  "cf_of_int32 w = Finite (int32_to_float w)"

fun cf_to_int32 :: "cfloat \<Rightarrow> 32 word option" where
  "cf_to_int32 (Finite x) = (if fits_int32 x then Some (float_to_int32 x) else None)"
| "cf_to_int32 PInf = None"
| "cf_to_int32 NInf = None"
| "cf_to_int32 NaN = None"

record sail_controller_data_ieee =
  position_quantum_ieee :: cfloat
  command_quantum_ieee :: cfloat

definition sail_controller_data_ieee_init :: "guidance_consts \<Rightarrow> sail_controller_data_ieee" where
  "sail_controller_data_ieee_init K =
     \<lparr>position_quantum_ieee = cf_div (Finite M_PI_F) (Finite 4),
      command_quantum_ieee = cf_div (Finite (SAIL_SATURATION K)) (Finite 4)\<rparr>"

definition set_sail_positions_ieee ::
  "guidance_consts \<Rightarrow> sail_controller_data_ieee \<Rightarrow> 32 word \<Rightarrow> sail_controller_data_ieee" where
  "set_sail_positions_ieee K sd num =
     sd\<lparr>position_quantum_ieee := cf_div (Finite M_PI_F) (cf_of_int32 num),
        command_quantum_ieee := cf_div (Finite (SAIL_SATURATION K)) (cf_of_int32 num)\<rparr>"

definition sail_controller_ieee ::
  "guidance_consts \<Rightarrow> controller_env \<Rightarrow> sail_controller_data_ieee \<Rightarrow> cfloat option" where
  "sail_controller_ieee K e sd =
     (let mean_apparent = Finite (get_app_wind e);
          abs_angle = (if cf_less (Finite 0) mean_apparent then mean_apparent
                       else cf_neg mean_apparent)
      in case cf_to_int32 (cf_div abs_angle (position_quantum_ieee sd)) of
           None \<Rightarrow> None
         | Some sector \<Rightarrow>
             Some (cf_sub (Finite (SAIL_SATURATION K))
                     (cf_mul (cf_of_int32 sector) (command_quantum_ieee sd))))"

text \<open>
  Lines 919 to 935 of \<^verbatim>\<open>guidance_module\<close>: the choice between the sail controller and
  the manual sail value, the clamp, and the value written to \<^verbatim>\<open>control[3]\<close>.
\<close>

definition guidance_module_sail_ieee ::
  "guidance_consts \<Rightarrow> controller_env \<Rightarrow> sail_controller_data_ieee \<Rightarrow> parameters_qgc \<Rightarrow>
   cfloat option" where
  "guidance_module_sail_ieee K e sd param_qgc =
     (case (if sail_servo param_qgc < 0 then sail_controller_ieee K e sd
            else Some (Finite (sail_servo param_qgc))) of
        None \<Rightarrow> None
      | Some sail_command \<Rightarrow>
          Some (if cf_less sail_command (Finite 0) then Finite 0
                else if cf_less (Finite (SAIL_SATURATION K)) sail_command
                     then Finite (SAIL_SATURATION K)
                else sail_command))"

subsection \<open>Example inputs\<close>

text \<open>Example values for the four macros of the missing header.\<close>

definition ex_K :: guidance_consts where
  "ex_K = \<lparr>RUDDER_SATURATION = 0.9, SAIL_SATURATION = 0.56,
           RUDDER_45_LEFT = 0.85, SAIL_20 = 0.56\<rparr>"

definition ex_roll_td :: tack_data_s where
  "ex_roll_td = tack_data_init\<lparr>roll_before_tack := [5 * M_PI_F / 180, 0]\<rparr>"

definition ex_left_td :: tack_data_s where
  "ex_left_td =
     set_stop_tack
       (tack_data_init\<lparr>tack_rudder_command := 0.9,
                       yaw_before_tack := [- 170 * M_PI_F / 180, 0]\<rparr>) 2 60"

definition ex_right_td :: tack_data_s where
  "ex_right_td =
     set_stop_tack (tack_data_init\<lparr>yaw_before_tack := [170 * M_PI_F / 180, 0]\<rparr>) 2 60"

definition ex_pd :: pi_rudder_data_s where
  "ex_pd = pi_rudder_data_init\<lparr>pi_p := 1\<rparr>"

definition ex_env :: controller_env where
  "ex_env = \<lparr>get_alpha = 0, get_alpha_yaw = 0.33, get_app_wind = M_PI_F / 4,
             get_twd = 0, hrt_absolute_time = 0\<rparr>"

definition ex_sat_gs :: guidance_state where
  "ex_sat_gs = set_pi_rudder_data (guidance_state_init ex_K) 5 0 1 1 1 0.5"

definition ex_sat_ref :: reference_actions_s where
  "ex_sat_ref = \<lparr>alpha_star = 1, should_tack = False\<rparr>"

definition ex_sat_par :: parameters_qgc where
  "ex_sat_par = \<lparr>sail_servo = 2\<rparr>"

definition ex_tk_gs :: guidance_state where
  "ex_tk_gs = (guidance_state_init ex_K)
     \<lparr>tack_data := tack_data_init
        \<lparr>boat_is_tacking := True, roll_before_tack := [0.2, 0.2],
         yaw_before_tack := [- 0.5, - 0.5]\<rparr>,
      pi_rudder_data := ex_pd\<rparr>"

definition ex_tk_ref :: reference_actions_s where
  "ex_tk_ref = \<lparr>alpha_star = 0.5, should_tack = True\<rparr>"

definition ex_tk_par :: parameters_qgc where
  "ex_tk_par = \<lparr>sail_servo = - 1\<rparr>"

definition ex_tk_strs :: structs_topics_s where
  "ex_tk_strs = structs_topics_init
     \<lparr>att := \<lparr>roll = - 0.15, yaw = 0.6\<rparr>,
      boat_weather_station := \<lparr>roll_r = - 0.15, heading_tn = 0.6\<rparr>\<rparr>"

definition ex_start_ref :: reference_actions_s where
  "ex_start_ref = \<lparr>alpha_star = - 0.5, should_tack = True\<rparr>"

definition ex_port_ref :: reference_actions_s where
  "ex_port_ref = \<lparr>alpha_star = 0.5, should_tack = True\<rparr>"

definition ex_start_strs :: structs_topics_s where
  "ex_start_strs = structs_topics_init
     \<lparr>att := \<lparr>roll = 0.1, yaw = - 2.9\<rparr>,
      boat_weather_station := \<lparr>roll_r = 0.12, heading_tn = - 2.95\<rparr>\<rparr>"

definition ex_ops :: "operation list" where
  "ex_ops = [Op_path_planning ex_start_ref,
             Op_sensors (att ex_start_strs) (boat_weather_station ex_start_strs),
             Op_guidance_module ex_env ex_tk_par]"

definition ex_nav :: navigation_state where
  "ex_nav = \<lparr>cosPhi = 1, sinPhi = 0, cosLambda = 1, sinLambda = 0,
             x0_dm = 63781370, y0_dm = - 40, z0_dm = - 30,
             ned_to_race_s = \<lparr>sin_mwd = 0.8, cos_mwd = 0.6, n0_dm = 10, e0_dm = 6,
                               mean_wind_angle_r = arccos 0.6\<rparr>\<rparr>"

definition ex_gps :: vehicle_global_position_s where
  "ex_gps = \<lparr>lat = 0, lon = 0, alt = 0\<rparr>"

definition ex_zero_env :: controller_env where
  "ex_zero_env = \<lparr>get_alpha = 0, get_alpha_yaw = 0, get_app_wind = 0.5,
                 get_twd = 0, hrt_absolute_time = 0\<rparr>"

section \<open>Auxiliary facts\<close>

lemma sint_word_of_int_32:
  assumes "- (2 ^ 31) \<le> k" and "k < 2 ^ 31"
  shows "sint (word_of_int k :: 32 word) = k"
  using assms by (simp add: signed_of_int signed_take_bit_int_eq_self)

lemma float_to_int32_trunc:
  assumes "fits_int32 x"
  shows "sint (float_to_int32 x) = (if 0 \<le> x then \<lfloor>x\<rfloor> else \<lceil>x\<rceil>)"
proof (cases "0 \<le> x")
  case True
  have "- (2 ^ 31) \<le> \<lfloor>x\<rfloor>" using True by (simp add: le_floor_iff)
  moreover have "\<lfloor>x\<rfloor> < 2 ^ 31" using assms by (simp add: fits_int32_def floor_less_iff)
  ultimately show ?thesis using True by (simp add: float_to_int32_def sint_word_of_int_32)
next
  case False
  have "- (2 ^ 31) \<le> \<lceil>x\<rceil>" using assms by (simp add: fits_int32_def le_ceiling_iff)
  moreover have "\<lceil>x\<rceil> < 2 ^ 31" using False by (simp add: ceiling_less_iff)
  ultimately show ?thesis using False by (simp add: float_to_int32_def sint_word_of_int_32)
qed

lemma float_to_int32_close:
  assumes "fits_int32 x"
  shows "\<bar>int32_to_float (float_to_int32 x) - x\<bar> < 1"
  unfolding int32_to_float_def float_to_int32_trunc[OF assms]
  by (simp; linarith)

lemma control_update_nth:
  "3 < length xs \<Longrightarrow> xs[0 := r, 3 := s] ! 0 = r \<and> xs[0 := r, 3 := s] ! 3 = s"
  by (cases xs) auto

lemma rudder_saturation_bounds:
  "0 \<le> RUDDER_SATURATION K \<Longrightarrow>
     - RUDDER_SATURATION K \<le> rudder_saturation K c \<and>
     rudder_saturation K c \<le> RUDDER_SATURATION K"
  by (simp add: rudder_saturation_def)

text \<open>
  Whatever path a control cycle takes, the two commands it writes are a rudder value passed
  through \<^const>\<open>rudder_saturation\<close> and a sail value passed through the clamp.
\<close>

lemma guidance_module_control:
  "\<exists>r s. control (actuators (snd (snd (guidance_module K e gs ref_act param_qgc strs)))) =
           (control (actuators strs))
             [0 := rudder_saturation K r,
              3 := (if s < 0 then 0 else if s > SAIL_SATURATION K then SAIL_SATURATION K else s)]"
proof -
  obtain gs1 ref1 rud1 sail1 where T:
    "(if should_tack ref_act then tack_action K e gs ref_act strs else (gs, ref_act, 0, 0)) =
       (gs1, ref1, rud1, sail1)"
    by (metis prod_cases4)
  obtain rud pd where P:
    "pi_controller K (pi_rudder_data gs1) (alpha_star ref1) (get_alpha e) = (rud, pd)"
    by fastforce
  show ?thesis
  proof (cases "should_tack ref1")
    case True
    then have "control (actuators (snd (snd (guidance_module K e gs ref_act param_qgc strs)))) =
        (control (actuators strs))
          [0 := rudder_saturation K rud1,
           3 := (if sail1 < 0 then 0
                 else if sail1 > SAIL_SATURATION K then SAIL_SATURATION K else sail1)]"
      unfolding guidance_module_def Let_def T P by simp
    then show ?thesis by blast
  next
    case False
    let ?s = "if sail_servo param_qgc < 0 then sail_controller K e (sail_controller_data gs1)
              else sail_servo param_qgc"
    from False have "control (actuators (snd (snd (guidance_module K e gs ref_act param_qgc strs)))) =
        (control (actuators strs))
          [0 := rudder_saturation K rud,
           3 := (if ?s < 0 then 0
                 else if ?s > SAIL_SATURATION K then SAIL_SATURATION K else ?s)]"
      by (simp add: guidance_module_def Let_def T P)
    then show ?thesis by blast
  qed
qed

lemma ex_sail_controller:
  "sail_controller ex_K ex_env (sail_controller_data_init ex_K) = 0.42"
  by (simp add: sail_controller_def sail_controller_data_init_def ex_K_def ex_env_def Let_def
      float_to_int32_def int32_to_float_def M_PI_F_def)

lemma ex_helmsman: "helmsman_tack_p2s ex_K (get_alpha_yaw ex_env) = (0.85, 0.56)"
  by (simp add: helmsman_tack_p2s_def ex_K_def ex_env_def Let_def)

lemma ex_completed: "is_tack_completed (tack_data ex_tk_gs) ex_tk_strs"
  by (simp add: is_tack_completed_def roll_stop_tack_def yaw_stop_tack_def ex_tk_gs_def
      ex_tk_strs_def structs_topics_init_def tack_data_init_def Let_def)

lemma tack_action_completed:
  assumes "boat_is_tacking (tack_data gs)" and "is_tack_completed (tack_data gs) strs"
  shows "tack_action K e gs ref_act strs =
     (gs\<lparr>tack_data := (tack_data gs)\<lparr>boat_is_tacking := False\<rparr>,
         txt_msg := ''Tack completed.'',
         notices := notices gs @
           [Notify_tack_completed, Send_log_info ''Tack completed.'']\<rparr>,
      ref_act\<lparr>should_tack := False\<rparr>,
      fst (if - alpha_star ref_act < 0 then helmsman_tack_p2s K (get_alpha_yaw e)
           else helmsman_tack_s2p K (get_alpha_yaw e)),
      snd (if - alpha_star ref_act < 0 then helmsman_tack_p2s K (get_alpha_yaw e)
           else helmsman_tack_s2p K (get_alpha_yaw e)))"
  using assms by (simp add: tack_action_def Let_def split: prod.split)

lemma tack_action_continues:
  assumes "boat_is_tacking (tack_data gs)" and "\<not> is_tack_completed (tack_data gs) strs"
  shows "tack_action K e gs ref_act strs =
     (gs, ref_act,
      fst (if - alpha_star ref_act < 0 then helmsman_tack_p2s K (get_alpha_yaw e)
           else helmsman_tack_s2p K (get_alpha_yaw e)),
      snd (if - alpha_star ref_act < 0 then helmsman_tack_p2s K (get_alpha_yaw e)
           else helmsman_tack_s2p K (get_alpha_yaw e)))"
  using assms by (simp add: tack_action_def Let_def split: prod.split)

lemma guidance_module_tack_completed:
  assumes "should_tack ref_act" and "boat_is_tacking (tack_data gs)"
    and "is_tack_completed (tack_data gs) strs"
  shows "\<not> should_tack (fst (snd (guidance_module K e gs ref_act param_qgc strs)))"
    and "\<not> boat_is_tacking (tack_data (fst (guidance_module K e gs ref_act param_qgc strs)))"
    and "control (actuators (snd (snd (guidance_module K e gs ref_act param_qgc strs)))) =
        (control (actuators strs))
          [0 := rudder_saturation K
             (fst (pi_controller K (pi_rudder_data gs) (alpha_star ref_act) (get_alpha e))),
           3 := (let s = (if sail_servo param_qgc < 0
                          then sail_controller K e (sail_controller_data gs)
                          else sail_servo param_qgc)
                 in if s < 0 then 0
                    else if s > SAIL_SATURATION K then SAIL_SATURATION K else s)]"
proof -
  let ?G = "guidance_module K e gs ref_act param_qgc strs"
  define hr where "hr = fst (if - alpha_star ref_act < 0
    then helmsman_tack_p2s K (get_alpha_yaw e) else helmsman_tack_s2p K (get_alpha_yaw e))"
  define hs where "hs = snd (if - alpha_star ref_act < 0
    then helmsman_tack_p2s K (get_alpha_yaw e) else helmsman_tack_s2p K (get_alpha_yaw e))"
  define gs1 where "gs1 = gs
    \<lparr>tack_data := (tack_data gs)\<lparr>boat_is_tacking := False\<rparr>,
     txt_msg := ''Tack completed.'',
     notices := notices gs @ [Notify_tack_completed, Send_log_info ''Tack completed.'']\<rparr>"
  have gs1: "sail_controller_data gs1 = sail_controller_data gs"
    "pi_rudder_data gs1 = pi_rudder_data gs" "\<not> boat_is_tacking (tack_data gs1)"
    by (simp_all add: gs1_def)
  define s where "s = (if sail_servo param_qgc < 0
    then sail_controller K e (sail_controller_data gs) else sail_servo param_qgc)"
  have S: "(if sail_servo param_qgc < 0
    then sail_controller K e (sail_controller_data gs1) else sail_servo param_qgc) = s"
    by (simp add: s_def gs1)
  obtain rud pd where P:
    "pi_controller K (pi_rudder_data gs) (alpha_star ref_act) (get_alpha e) = (rud, pd)"
    by fastforce
  have P1: "pi_controller K (pi_rudder_data gs1) (alpha_star ref_act) (get_alpha e) = (rud, pd)"
    by (simp add: gs1 P)
  have T: "tack_action K e gs ref_act strs = (gs1, ref_act\<lparr>should_tack := False\<rparr>, hr, hs)"
    unfolding hr_def hs_def gs1_def by (rule tack_action_completed[OF assms(2,3)])
  have "\<not> should_tack (fst (snd ?G))" and "\<not> boat_is_tacking (tack_data (fst ?G))"
    and "control (actuators (snd (snd ?G))) =
      (control (actuators strs))
        [0 := rudder_saturation K rud,
         3 := (if s < 0 then 0 else if s > SAIL_SATURATION K then SAIL_SATURATION K else s)]"
    by (simp_all add: guidance_module_def T assms(1) Let_def P P1 S gs1)
  then show "\<not> should_tack (fst (snd ?G))" and "\<not> boat_is_tacking (tack_data (fst ?G))"
    and "control (actuators (snd (snd ?G))) =
        (control (actuators strs))
          [0 := rudder_saturation K
             (fst (pi_controller K (pi_rudder_data gs) (alpha_star ref_act) (get_alpha e))),
           3 := (let s = (if sail_servo param_qgc < 0
                          then sail_controller K e (sail_controller_data gs)
                          else sail_servo param_qgc)
                 in if s < 0 then 0
                    else if s > SAIL_SATURATION K then SAIL_SATURATION K else s)]"
    unfolding s_def Let_def P by simp_all
qed

lemma guidance_module_tack_continues:
  assumes "should_tack ref_act" and "boat_is_tacking (tack_data gs)"
    and "\<not> is_tack_completed (tack_data gs) strs"
  shows "should_tack (fst (snd (guidance_module K e gs ref_act param_qgc strs)))"
    and "boat_is_tacking (tack_data (fst (guidance_module K e gs ref_act param_qgc strs)))"
    and "control (actuators (snd (snd (guidance_module K e gs ref_act param_qgc strs)))) =
        (control (actuators strs))
          [0 := rudder_saturation K
             (fst (if - alpha_star ref_act < 0 then helmsman_tack_p2s K (get_alpha_yaw e)
                   else helmsman_tack_s2p K (get_alpha_yaw e))),
           3 := (let s = snd (if - alpha_star ref_act < 0
                              then helmsman_tack_p2s K (get_alpha_yaw e)
                              else helmsman_tack_s2p K (get_alpha_yaw e))
                 in if s < 0 then 0
                    else if s > SAIL_SATURATION K then SAIL_SATURATION K else s)]"
proof -
  let ?G = "guidance_module K e gs ref_act param_qgc strs"
  define hr where "hr = fst (if - alpha_star ref_act < 0
    then helmsman_tack_p2s K (get_alpha_yaw e) else helmsman_tack_s2p K (get_alpha_yaw e))"
  define hs where "hs = snd (if - alpha_star ref_act < 0
    then helmsman_tack_p2s K (get_alpha_yaw e) else helmsman_tack_s2p K (get_alpha_yaw e))"
  have T: "tack_action K e gs ref_act strs = (gs, ref_act, hr, hs)"
    unfolding hr_def hs_def by (rule tack_action_continues[OF assms(2,3)])
  have "should_tack (fst (snd ?G))" and "boat_is_tacking (tack_data (fst ?G))"
    and "control (actuators (snd (snd ?G))) =
      (control (actuators strs))
        [0 := rudder_saturation K hr,
         3 := (if hs < 0 then 0 else if hs > SAIL_SATURATION K then SAIL_SATURATION K else hs)]"
    using assms(1,2) by (simp_all add: guidance_module_def T Let_def)
  then show "should_tack (fst (snd ?G))" and "boat_is_tacking (tack_data (fst ?G))"
    and "control (actuators (snd (snd ?G))) =
        (control (actuators strs))
          [0 := rudder_saturation K
             (fst (if - alpha_star ref_act < 0 then helmsman_tack_p2s K (get_alpha_yaw e)
                   else helmsman_tack_s2p K (get_alpha_yaw e))),
           3 := (let s = snd (if - alpha_star ref_act < 0
                              then helmsman_tack_p2s K (get_alpha_yaw e)
                              else helmsman_tack_s2p K (get_alpha_yaw e))
                 in if s < 0 then 0
                    else if s > SAIL_SATURATION K then SAIL_SATURATION K else s)]"
    unfolding hr_def hs_def Let_def by blast+
qed

lemma sqrt_squared_earth_radius_m: "sqrt squared_earth_radius_m = 6378137"
  unfolding squared_earth_radius_m_def by (rule real_sqrt_unique) simp_all

lemma tack_action_rudder_command:
  "tack_rudder_command (tack_data (fst (tack_action K e gs ref_act strs))) =
     tack_rudder_command (tack_data gs)"
  by (simp add: tack_action_def Let_def split: prod.split)

lemma guidance_module_rudder_command:
  "tack_rudder_command (tack_data (fst (guidance_module K e gs ref_act param_qgc strs))) =
     tack_rudder_command (tack_data gs)"
proof -
  obtain gs1 ref1 rud1 sail1 where T:
    "tack_action K e gs ref_act strs = (gs1, ref1, rud1, sail1)"
    by (metis prod_cases4)
  have gs1: "tack_rudder_command (tack_data gs1) = tack_rudder_command (tack_data gs)"
    using tack_action_rudder_command[of K e gs ref_act strs] by (simp add: T)
  show ?thesis
    by (simp add: guidance_module_def T gs1 Let_def split: prod.split)
qed

lemma set_pi_rudder_data_tack_data:
  "tack_data (set_pi_rudder_data gs p i cp ci use_cond kaw) = tack_data gs"
  by (simp add: set_pi_rudder_data_def Let_def)

lemma step_rudder_command:
  "tack_rudder_command (tack_data (ps_guidance (step K s x))) =
     tack_rudder_command (tack_data (ps_guidance s))"
proof (cases x)
  case (Op_guidance_module e param_qgc)
  then show ?thesis
    using guidance_module_rudder_command[of K e "ps_guidance s" "ps_ref_act s" param_qgc "ps_strs s"]
    by (auto split: prod.split)
qed (simp_all add: set_stop_tack_def set_pi_rudder_data_tack_data)

lemma run_rudder_command:
  "tack_rudder_command (tack_data (ps_guidance (run K s ops))) =
     tack_rudder_command (tack_data (ps_guidance s))"
  by (induction ops arbitrary: s) (simp_all add: step_rudder_command)

lemma ex_geo_to_ned: "geo_to_ned ex_nav ex_gps = (30, 40, 0)"
proof -
  have e: "geo_to_ecef 0 0 0 = (63781370, 0, 0)"
    by (simp add: geo_to_ecef_def degE7_to_rad_def int32_to_float_def atan2_def Let_def
        sqrt_squared_earth_radius_m E1_def float_to_int32_def)
  show ?thesis
    by (simp add: geo_to_ned_def ex_gps_def float_to_int32_def e ecef_to_ned_def ex_nav_def
        int32_to_float_def Let_def)
qed

text \<open>
  Where no quantum is a quotient by zero and the sector fits, the model with the special
  values computes the finite values of the real-valued model.
\<close>

lemma set_sail_positions_ieee_finite:
  assumes "sint num \<noteq> 0"
  shows "set_sail_positions_ieee K sdi num =
     \<lparr>position_quantum_ieee = Finite (position_quantum (set_sail_positions K sd num)),
      command_quantum_ieee = Finite (command_quantum (set_sail_positions K sd num))\<rparr>"
  using assms
  by (simp add: set_sail_positions_ieee_def set_sail_positions_def cf_of_int32_def
      int32_to_float_def del: of_int_sint)

lemma sail_controller_ieee_finite:
  assumes "position_quantum sd \<noteq> 0"
    and "fits_int32 (\<bar>get_app_wind e\<bar> / position_quantum sd)"
  shows "sail_controller_ieee K e
           \<lparr>position_quantum_ieee = Finite (position_quantum sd),
            command_quantum_ieee = Finite (command_quantum sd)\<rparr> =
         Some (Finite (sail_controller K e sd))"
proof (cases "0 < get_app_wind e")
  case True
  then show ?thesis
    using assms
    by (simp add: sail_controller_ieee_def sail_controller_def Let_def cf_sub_def
        cf_of_int32_def)
next
  case False
  then have "\<bar>get_app_wind e\<bar> = - get_app_wind e" by simp
  then show ?thesis
    using assms False
    by (simp add: sail_controller_ieee_def sail_controller_def Let_def cf_sub_def
        cf_of_int32_def)
qed

lemma guidance_module_sail_ieee_finite:
  assumes "position_quantum sd \<noteq> 0"
    and "fits_int32 (\<bar>get_app_wind e\<bar> / position_quantum sd)"
  shows "guidance_module_sail_ieee K e
           \<lparr>position_quantum_ieee = Finite (position_quantum sd),
            command_quantum_ieee = Finite (command_quantum sd)\<rparr> param_qgc =
         Some (Finite
           (let s = (if sail_servo param_qgc < 0 then sail_controller K e sd
                     else sail_servo param_qgc)
            in if s < 0 then 0
               else if s > SAIL_SATURATION K then SAIL_SATURATION K else s))"
  by (simp add: guidance_module_sail_ieee_def sail_controller_ieee_finite[OF assms] Let_def)

section \<open>The control cycle while tacking\<close>

text \<open>
  Claim C1 says that in a cycle entered with \<open>should_tack\<close> set while the boat is already
  tacking, the published commands are the helmsman's, also when the tack is found completed
  in that cycle.  In the cycle below the tack is completed: the helmsman computes a rudder
  of \<open>0.85\<close> and a sail of \<open>0.56\<close>, both inside the saturation limits, and the cycle
  publishes the PI rudder \<open>1 / 3\<close> and the sail controller's \<open>0.42\<close>.
\<close>

theorem guidance_module_replaces_helmsman_counterexample:
  "should_tack ex_tk_ref \<and> boat_is_tacking (tack_data ex_tk_gs) \<and>
   is_tack_completed (tack_data ex_tk_gs) ex_tk_strs \<and>
   - alpha_star ex_tk_ref < 0 \<and>
   helmsman_tack_p2s ex_K (get_alpha_yaw ex_env) = (0.85, 0.56) \<and>
   rudder_saturation ex_K 0.85 = 0.85 \<and>
   control (actuators (snd (snd
     (guidance_module ex_K ex_env ex_tk_gs ex_tk_ref ex_tk_par ex_tk_strs)))) ! 0 = 1 / 3 \<and>
   control (actuators (snd (snd
     (guidance_module ex_K ex_env ex_tk_gs ex_tk_ref ex_tk_par ex_tk_strs)))) ! 3 = 0.42"
proof -
  let ?c = "control (actuators (snd (snd
     (guidance_module ex_K ex_env ex_tk_gs ex_tk_ref ex_tk_par ex_tk_strs))))"
  have S: "sail_controller ex_K ex_env (sail_controller_data ex_tk_gs) = 0.42"
    using ex_sail_controller by (simp add: ex_tk_gs_def guidance_state_init_def)
  have P: "fst (pi_controller ex_K (pi_rudder_data ex_tk_gs) (alpha_star ex_tk_ref)
      (get_alpha ex_env)) = 1 / 3"
    by (simp add: pi_controller_def ex_tk_gs_def ex_pd_def pi_rudder_data_init_def
        ex_tk_ref_def ex_env_def Let_def)
  have tk: "should_tack ex_tk_ref" "boat_is_tacking (tack_data ex_tk_gs)"
    by (simp_all add: ex_tk_ref_def ex_tk_gs_def)
  have "?c = (control (actuators ex_tk_strs))
      [0 := rudder_saturation ex_K (1 / 3),
       3 := (if (0.42 :: real) < 0 then 0
             else if 0.42 > SAIL_SATURATION ex_K then SAIL_SATURATION ex_K else 0.42)]"
    using guidance_module_tack_completed(3)[OF tk ex_completed, of ex_K ex_env ex_tk_par]
    by (simp add: S P ex_tk_par_def Let_def)
  then have "?c ! 0 = 1 / 3" and "?c ! 3 = 0.42"
    by (simp_all add: ex_tk_strs_def structs_topics_init_def rudder_saturation_def ex_K_def)
  then show ?thesis
    using ex_completed ex_helmsman tk
    by (simp add: ex_tk_ref_def rudder_saturation_def ex_K_def)
qed

text \<open>
  Claim C1, amended.  In a cycle entered with \<open>should_tack\<close> set while the boat is already
  tacking: if \<^const>\<open>is_tack_completed\<close> is false, the reference and the tacking flag stay
  set and the published rudder and sail are the helmsman's commands
  (\<^const>\<open>helmsman_tack_p2s\<close> when \<open>- alpha_star < 0\<close>, \<^const>\<open>helmsman_tack_s2p\<close>
  otherwise) after the saturation; if it is true, \<open>should_tack\<close> and the tacking flag are
  cleared and, in the same cycle, the published rudder is the saturated command of
  \<^const>\<open>pi_controller\<close> and the published sail is the clamped command of
  \<^const>\<open>sail_controller\<close>, or the manual sail value when that is not negative.
\<close>

theorem guidance_module_while_tacking:
  assumes "should_tack ref_act" and "boat_is_tacking (tack_data gs)"
    and "3 < length (control (actuators strs))"
    and "guidance_module K e gs ref_act param_qgc strs = (gs', ref', strs')"
  shows "(\<not> is_tack_completed (tack_data gs) strs \<longrightarrow>
            should_tack ref' \<and> boat_is_tacking (tack_data gs') \<and>
            control (actuators strs') ! 0 =
              rudder_saturation K
                (fst (if - alpha_star ref_act < 0 then helmsman_tack_p2s K (get_alpha_yaw e)
                      else helmsman_tack_s2p K (get_alpha_yaw e))) \<and>
            control (actuators strs') ! 3 =
              (let s = snd (if - alpha_star ref_act < 0
                            then helmsman_tack_p2s K (get_alpha_yaw e)
                            else helmsman_tack_s2p K (get_alpha_yaw e))
               in if s < 0 then 0
                  else if s > SAIL_SATURATION K then SAIL_SATURATION K else s)) \<and>
         (is_tack_completed (tack_data gs) strs \<longrightarrow>
            \<not> should_tack ref' \<and> \<not> boat_is_tacking (tack_data gs') \<and>
            control (actuators strs') ! 0 =
              rudder_saturation K
                (fst (pi_controller K (pi_rudder_data gs) (alpha_star ref_act) (get_alpha e))) \<and>
            control (actuators strs') ! 3 =
              (let s = (if sail_servo param_qgc < 0
                        then sail_controller K e (sail_controller_data gs)
                        else sail_servo param_qgc)
               in if s < 0 then 0
                  else if s > SAIL_SATURATION K then SAIL_SATURATION K else s))"
proof -
  note nth = control_update_nth[OF assms(3)]
  let ?G = "guidance_module K e gs ref_act param_qgc strs"
  have res: "gs' = fst ?G" "ref' = fst (snd ?G)" "strs' = snd (snd ?G)"
    using assms(4) by simp_all
  show ?thesis
  proof (cases "is_tack_completed (tack_data gs) strs")
    case True
    show ?thesis
      unfolding res
      using True guidance_module_tack_completed[OF assms(1,2) True, of K e param_qgc] nth
      by simp
  next
    case False
    show ?thesis
      unfolding res
      using False guidance_module_tack_continues[OF assms(1,2) False, of K e param_qgc] nth
      by simp
  qed
qed

text \<open>
  The completed tack of the example above, and the same cycle with sensor readings that do
  not complete the tack, where the helmsman's \<open>0.85\<close> and \<open>0.56\<close> are published.
\<close>

theorem guidance_module_while_tacking_witness:
  "should_tack ex_tk_ref \<and> boat_is_tacking (tack_data ex_tk_gs) \<and>
   3 < length (control (actuators ex_tk_strs)) \<and>
   is_tack_completed (tack_data ex_tk_gs) ex_tk_strs \<and>
   \<not> should_tack (fst (snd
     (guidance_module ex_K ex_env ex_tk_gs ex_tk_ref ex_tk_par ex_tk_strs))) \<and>
   3 < length (control (actuators structs_topics_init)) \<and>
   \<not> is_tack_completed (tack_data ex_tk_gs) structs_topics_init \<and>
   should_tack (fst (snd
     (guidance_module ex_K ex_env ex_tk_gs ex_tk_ref ex_tk_par structs_topics_init))) \<and>
   control (actuators (snd (snd
     (guidance_module ex_K ex_env ex_tk_gs ex_tk_ref ex_tk_par structs_topics_init)))) ! 0
     = 0.85 \<and>
   control (actuators (snd (snd
     (guidance_module ex_K ex_env ex_tk_gs ex_tk_ref ex_tk_par structs_topics_init)))) ! 3
     = 0.56"
proof -
  have tk: "should_tack ex_tk_ref" "boat_is_tacking (tack_data ex_tk_gs)"
    by (simp_all add: ex_tk_ref_def ex_tk_gs_def)
  have len: "3 < length (control (actuators ex_tk_strs))"
    "3 < length (control (actuators structs_topics_init))"
    by (simp_all add: ex_tk_strs_def structs_topics_init_def)
  have nc: "\<not> is_tack_completed (tack_data ex_tk_gs) structs_topics_init"
    by (simp add: is_tack_completed_def roll_stop_tack_def yaw_stop_tack_def ex_tk_gs_def
        structs_topics_init_def tack_data_init_def Let_def)
  have port: "- alpha_star ex_tk_ref < 0" by (simp add: ex_tk_ref_def)
  have sat: "rudder_saturation ex_K 0.85 = 0.85" "\<not> (0.56 :: real) > SAIL_SATURATION ex_K"
    by (simp_all add: rudder_saturation_def ex_K_def)
  show ?thesis
    using guidance_module_while_tacking[OF tk len(1), of ex_K ex_env ex_tk_par
        "fst (guidance_module ex_K ex_env ex_tk_gs ex_tk_ref ex_tk_par ex_tk_strs)"
        "fst (snd (guidance_module ex_K ex_env ex_tk_gs ex_tk_ref ex_tk_par ex_tk_strs))"
        "snd (snd (guidance_module ex_K ex_env ex_tk_gs ex_tk_ref ex_tk_par ex_tk_strs))"]
      guidance_module_while_tacking[OF tk len(2), of ex_K ex_env ex_tk_par
        "fst (guidance_module ex_K ex_env ex_tk_gs ex_tk_ref ex_tk_par structs_topics_init)"
        "fst (snd (guidance_module ex_K ex_env ex_tk_gs ex_tk_ref ex_tk_par structs_topics_init))"
        "snd (snd (guidance_module ex_K ex_env ex_tk_gs ex_tk_ref ex_tk_par structs_topics_init))"]
      tk len nc ex_completed port sat ex_helmsman
    by (simp add: Let_def)
qed

section \<open>Saturation of the actuator commands\<close>

text \<open>
  Claim C2.  The claim is that for every reference action, parameter set, controller state
  and sensor input the commands written by \<^verbatim>\<open>guidance_module\<close> are in range, the sail at
  index 3 between \<open>0\<close> and \<open>SAIL_SATURATION\<close>.  After \<^verbatim>\<open>set_sail_positions\<close> with \<open>0\<close>
  positions both quanta are the quotient of a positive number by zero, that is plus
  infinity; with an apparent wind angle of \<open>0.5\<close> the sail controller finds sector \<open>0\<close> and
  computes \<open>SAIL_SATURATION - 0 * infinity\<close>, which is NaN; neither comparison of the clamp
  holds for NaN, so NaN is the sail command that the cycle writes.
\<close>

theorem guidance_module_sail_nan:
  "cf_of_int32 0 = Finite 0 \<and>
   set_sail_positions_ieee ex_K (sail_controller_data_ieee_init ex_K) 0 =
     \<lparr>position_quantum_ieee = PInf, command_quantum_ieee = PInf\<rparr> \<and>
   sail_servo ex_tk_par < 0 \<and>
   sail_controller_ieee ex_K ex_zero_env
     (set_sail_positions_ieee ex_K (sail_controller_data_ieee_init ex_K) 0) = Some NaN \<and>
   guidance_module_sail_ieee ex_K ex_zero_env
     (set_sail_positions_ieee ex_K (sail_controller_data_ieee_init ex_K) 0) ex_tk_par = Some NaN"
  by (simp add: cf_of_int32_def int32_to_float_def set_sail_positions_ieee_def
      sail_controller_data_ieee_init_def ex_K_def M_PI_F_def ex_tk_par_def
      sail_controller_ieee_def guidance_module_sail_ieee_def ex_zero_env_def Let_def
      cf_sub_def fits_int32_def float_to_int32_def)

text \<open>
  What the saturation does guarantee, in the real-valued model: both commands are in range
  when the two saturation macros are not negative, the control array has at least four
  entries, and no quotient of the cycle has a zero denominator (the position quantum and the
  two denominators of the PI controller with conditional integration).
\<close>

lemma guidance_module_saturated_finite:
  assumes "0 \<le> RUDDER_SATURATION K" and "0 \<le> SAIL_SATURATION K"
    and "3 < length (control (actuators strs))"
    and "position_quantum (sail_controller_data gs) \<noteq> 0"
    and "1 + pi_ci (pi_rudder_data gs) * (alpha_star ref_act - get_alpha e) *
           (alpha_star ref_act - get_alpha e) \<noteq> 0"
    and "1 + pi_cp (pi_rudder_data gs) * \<bar>alpha_star ref_act - get_alpha e\<bar> \<noteq> 0"
    and "guidance_module K e gs ref_act param_qgc strs = (gs', ref', strs')"
  shows "- RUDDER_SATURATION K \<le> control (actuators strs') ! 0 \<and>
         control (actuators strs') ! 0 \<le> RUDDER_SATURATION K \<and>
         0 \<le> control (actuators strs') ! 3 \<and>
         control (actuators strs') ! 3 \<le> SAIL_SATURATION K"
proof -
  obtain r s where c: "control (actuators strs') =
      (control (actuators strs))
        [0 := rudder_saturation K r,
         3 := (if s < 0 then 0 else if s > SAIL_SATURATION K then SAIL_SATURATION K else s)]"
    using guidance_module_control[of K e gs ref_act param_qgc strs] assms(7) by auto
  have "control (actuators strs') ! 0 = rudder_saturation K r"
    and "control (actuators strs') ! 3 =
           (if s < 0 then 0 else if s > SAIL_SATURATION K then SAIL_SATURATION K else s)"
    using control_update_nth[OF assms(3)] by (simp_all add: c)
  then show ?thesis
    using rudder_saturation_bounds[OF assms(1), of r] assms(2) by simp
qed

text \<open>
  An instance: the PI controller asks for a rudder of \<open>5 / 2\<close> and the manual sail value
  is \<open>2\<close>; the cycle writes the two saturation values.
\<close>

lemma guidance_module_saturated_finite_example:
  "0 \<le> RUDDER_SATURATION ex_K \<and> 0 \<le> SAIL_SATURATION ex_K \<and>
   3 < length (control (actuators structs_topics_init)) \<and>
   position_quantum (sail_controller_data ex_sat_gs) \<noteq> 0 \<and>
   fst (pi_controller ex_K (pi_rudder_data ex_sat_gs) (alpha_star ex_sat_ref) (get_alpha ex_env))
     = 5 / 2 \<and>
   control (actuators (snd (snd
     (guidance_module ex_K ex_env ex_sat_gs ex_sat_ref ex_sat_par structs_topics_init)))) ! 0
     = 0.9 \<and>
   control (actuators (snd (snd
     (guidance_module ex_K ex_env ex_sat_gs ex_sat_ref ex_sat_par structs_topics_init)))) ! 3
     = 0.56"
  using guidance_module_saturated_finite[of ex_K structs_topics_init ex_sat_gs ex_sat_ref ex_env
      ex_sat_par
      "fst (guidance_module ex_K ex_env ex_sat_gs ex_sat_ref ex_sat_par structs_topics_init)"
      "fst (snd (guidance_module ex_K ex_env ex_sat_gs ex_sat_ref ex_sat_par structs_topics_init))"
      "snd (snd (guidance_module ex_K ex_env ex_sat_gs ex_sat_ref ex_sat_par structs_topics_init))"]
  by (simp add: ex_K_def ex_env_def ex_sat_gs_def ex_sat_ref_def ex_sat_par_def
      structs_topics_init_def guidance_module_def pi_controller_def rudder_saturation_def
      set_pi_rudder_data_def guidance_state_init_def pi_rudder_data_init_def
      sail_controller_data_init_def M_PI_F_def Let_def)

section \<open>Completion of a tack\<close>

text \<open>
  Claim C3.  For a yaw source \<open>i\<close>: when the stored tack rudder command is positive (the
  boat turns left) and the yaw before the tack was negative, \<^const>\<open>yaw_stop_tack\<close> replaces
  a current yaw \<open>y \<ge> 0\<close> by \<open>y - 2 * M_PI_F\<close> and answers whether the extended yaw minus
  the yaw before the tack is at most minus the threshold; when the command is not positive
  (the boat turns right) and the yaw before the tack was positive, it replaces a current yaw
  that is not positive, so every negative one, by \<open>y + 2 * M_PI_F\<close> and answers whether the
  difference is at least the threshold.  In the left turn that starts at \<open>-170\<close> degrees with
  a threshold of \<open>60\<close> degrees, a yaw between \<open>-180\<close> and \<open>180\<close> degrees ends the tack
  exactly when it lies between \<open>0\<close> and \<open>130\<close> degrees, that is once \<open>-60\<close> degrees are
  swept, and not at the crossing of the boundary.
\<close>

theorem yaw_stop_tack_wraparound:
  "(tack_rudder_command td > 0 \<and> yaw_before_tack td ! i < 0 \<longrightarrow>
      yaw_stop_tack td y i =
        ((if y < 0 then y else y - 2 * M_PI_F) - yaw_before_tack td ! i
           \<le> - yaw_stop_tack_value td)) \<and>
   (\<not> tack_rudder_command td > 0 \<and> yaw_before_tack td ! i > 0 \<longrightarrow>
      yaw_stop_tack td y i =
        ((if y > 0 then y else y + 2 * M_PI_F) - yaw_before_tack td ! i
           \<ge> yaw_stop_tack_value td)) \<and>
   (tack_rudder_command td > 0 \<and> yaw_before_tack td ! i = - 170 * M_PI_F / 180 \<and>
    yaw_stop_tack_value td = 60 * M_PI_F / 180 \<and> - M_PI_F \<le> y \<and> y \<le> M_PI_F \<longrightarrow>
      yaw_stop_tack td y i = (0 \<le> y \<and> y \<le> 130 * M_PI_F / 180))"
  by (auto simp: yaw_stop_tack_def Let_def M_PI_F_def)

text \<open>
  The left turn from \<open>-170\<close> degrees at \<open>-175\<close>, \<open>180\<close>, \<open>160\<close> and \<open>130\<close> degrees, and
  the mirrored right turn from \<open>170\<close> degrees at \<open>-175\<close> and \<open>-130\<close> degrees.
\<close>

theorem yaw_stop_tack_wraparound_witness:
  "tack_rudder_command ex_left_td > 0 \<and> yaw_before_tack ex_left_td ! 0 < 0 \<and>
   yaw_before_tack ex_left_td ! 0 = - 170 * M_PI_F / 180 \<and>
   yaw_stop_tack_value ex_left_td = 60 * M_PI_F / 180 \<and>
   \<not> yaw_stop_tack ex_left_td (- 175 * M_PI_F / 180) 0 \<and>
   \<not> yaw_stop_tack ex_left_td M_PI_F 0 \<and>
   \<not> yaw_stop_tack ex_left_td (160 * M_PI_F / 180) 0 \<and>
   yaw_stop_tack ex_left_td (130 * M_PI_F / 180) 0 \<and>
   \<not> tack_rudder_command ex_right_td > 0 \<and> yaw_before_tack ex_right_td ! 0 > 0 \<and>
   \<not> yaw_stop_tack ex_right_td (- 175 * M_PI_F / 180) 0 \<and>
   yaw_stop_tack ex_right_td (- 130 * M_PI_F / 180) 0"
  using yaw_stop_tack_wraparound[of ex_left_td 0 "- 175 * M_PI_F / 180"]
    yaw_stop_tack_wraparound[of ex_left_td 0 "M_PI_F"]
    yaw_stop_tack_wraparound[of ex_left_td 0 "160 * M_PI_F / 180"]
    yaw_stop_tack_wraparound[of ex_left_td 0 "130 * M_PI_F / 180"]
    yaw_stop_tack_wraparound[of ex_right_td 0 "- 175 * M_PI_F / 180"]
    yaw_stop_tack_wraparound[of ex_right_td 0 "- 130 * M_PI_F / 180"]
  by (simp add: ex_left_td_def ex_right_td_def set_stop_tack_def tack_data_init_def M_PI_F_def)

text \<open>
  Claim C4.  When \<^const>\<open>tack_action\<close> starts a tack it sets the tacking flag and stores
  the two rolls and the two yaws of the attitude estimator and the weather station; the
  claim adds that it records the turn direction, the sign of \<open>- alpha_star\<close>, in the stored
  tack rudder command.  Started from the initial data with \<open>alpha_star = -0.5\<close> and again
  with \<open>alpha_star = 0.5\<close>, the function stores the same data both times, with a tack
  rudder command of \<open>0\<close>.
\<close>

theorem tack_action_start_keeps_rudder_command:
  "\<not> boat_is_tacking (tack_data (guidance_state_init ex_K)) \<and>
   should_tack ex_start_ref \<and> 0 < - alpha_star ex_start_ref \<and>
   should_tack ex_port_ref \<and> - alpha_star ex_port_ref < 0 \<and>
   tack_data (fst (tack_action ex_K ex_env (guidance_state_init ex_K) ex_start_ref
                     ex_start_strs)) =
     \<lparr>boat_is_tacking = True, tack_rudder_command = 0,
      roll_before_tack = [0.1, 0.12], yaw_before_tack = [- 2.9, - 2.95],
      roll_stop_tack_value = 2, yaw_stop_tack_value = 1.04\<rparr> \<and>
   tack_data (fst (tack_action ex_K ex_env (guidance_state_init ex_K) ex_port_ref
                     ex_start_strs)) =
     tack_data (fst (tack_action ex_K ex_env (guidance_state_init ex_K) ex_start_ref
                     ex_start_strs))"
  by (simp add: tack_action_def guidance_state_init_def tack_data_init_def ex_start_ref_def
      ex_port_ref_def ex_start_strs_def structs_topics_init_def Let_def split: prod.split)

text \<open>
  Claim C5.  In every state that the program reaches from its initial state by calls of the
  setters, writes of the path planner and of the sensor topics, and control cycles, the
  tack rudder command still has its initial value \<open>0\<close>; so \<^const>\<open>yaw_stop_tack\<close> always
  takes the branch for a turn to the right, whichever way the boat is tacking.
\<close>

theorem tack_rudder_command_never_assigned:
  "tack_rudder_command (tack_data (ps_guidance (run K (program_state_init K) ops))) = 0 \<and>
   yaw_stop_tack (tack_data (ps_guidance (run K (program_state_init K) ops))) angle i =
     (let td = tack_data (ps_guidance (run K (program_state_init K) ops));
          angle1 = (if yaw_before_tack td ! i > 0
                    then (if angle > 0 then angle else 2 * M_PI_F + angle)
                    else angle)
      in angle1 - yaw_before_tack td ! i \<ge> yaw_stop_tack_value td)"
proof -
  have "tack_rudder_command (tack_data (ps_guidance (run K (program_state_init K) ops))) = 0"
    by (simp add: run_rudder_command program_state_init_def guidance_state_init_def
        tack_data_init_def)
  then show ?thesis by (simp add: yaw_stop_tack_def Let_def)
qed

text \<open>
  A tack started at a yaw of \<open>-2.9\<close>: after the cycle the command is \<open>0\<close> and a yaw of
  \<open>3.1\<close> satisfies the yaw condition.
\<close>

theorem tack_rudder_command_never_assigned_witness:
  "boat_is_tacking (tack_data (ps_guidance (run ex_K (program_state_init ex_K) ex_ops))) \<and>
   yaw_before_tack (tack_data (ps_guidance (run ex_K (program_state_init ex_K) ex_ops)))
     = [- 2.9, - 2.95] \<and>
   tack_rudder_command (tack_data (ps_guidance (run ex_K (program_state_init ex_K) ex_ops)))
     = 0 \<and>
   yaw_stop_tack (tack_data (ps_guidance (run ex_K (program_state_init ex_K) ex_ops))) 3.1 0"
proof -
  have "tack_data (ps_guidance (run ex_K (program_state_init ex_K) ex_ops)) =
     \<lparr>boat_is_tacking = True, tack_rudder_command = 0,
      roll_before_tack = [0.1, 0.12], yaw_before_tack = [- 2.9, - 2.95],
      roll_stop_tack_value = 2, yaw_stop_tack_value = 1.04\<rparr>"
    by (simp add: ex_ops_def program_state_init_def guidance_module_def tack_action_def
      guidance_state_init_def tack_data_init_def ex_start_ref_def
      ex_start_strs_def structs_topics_init_def Let_def split: prod.split)
  then show ?thesis
    using tack_rudder_command_never_assigned[of ex_K ex_ops "3.1" 0]
    by (simp add: Let_def)
qed

text \<open>
  Claim C6.  For a roll source \<open>i\<close>, \<^const>\<open>roll_stop_tack\<close> answers true exactly when the
  roll before the tack was positive and the roll is at most minus that roll divided by the
  stop ratio, or the roll before the tack was negative and the roll is at least minus that
  roll divided by the stop ratio; when the roll before the tack was exactly \<open>0\<close> it answers
  false for every roll.  The stop ratio is not zero.
\<close>

theorem roll_stop_tack_condition:
  assumes "roll_stop_tack_value td \<noteq> 0"
  shows "(roll_stop_tack td angle i \<longleftrightarrow>
            (roll_before_tack td ! i > 0 \<and>
               angle \<le> - (roll_before_tack td ! i) / roll_stop_tack_value td) \<or>
            (roll_before_tack td ! i < 0 \<and>
               angle \<ge> - (roll_before_tack td ! i) / roll_stop_tack_value td)) \<and>
         (roll_before_tack td ! i = 0 \<longrightarrow> \<not> roll_stop_tack td angle i)"
  by (simp add: roll_stop_tack_def)

text \<open>
  With rolls of \<open>5\<close> and \<open>0\<close> degrees before the tack and a stop ratio of \<open>2\<close>, the first
  source ends the tack at \<open>-2.5\<close> degrees and not at \<open>-2.4\<close>, and the second never does.
\<close>

theorem roll_stop_tack_condition_witness:
  "roll_stop_tack_value ex_roll_td \<noteq> 0 \<and>
   roll_stop_tack ex_roll_td (- 2.5 * M_PI_F / 180) 0 \<and>
   \<not> roll_stop_tack ex_roll_td (- 2.4 * M_PI_F / 180) 0 \<and>
   roll_before_tack ex_roll_td ! 1 = 0 \<and>
   \<not> roll_stop_tack ex_roll_td (- 1) 1"
  using roll_stop_tack_condition[of ex_roll_td "- 2.5 * M_PI_F / 180" 0]
    roll_stop_tack_condition[of ex_roll_td "- 2.4 * M_PI_F / 180" 0]
    roll_stop_tack_condition[of ex_roll_td "- 1" 1]
  by (simp add: ex_roll_td_def tack_data_init_def M_PI_F_def)

section \<open>The PI controller of the rudder\<close>

text \<open>
  Claim C7 says that with an integral gain of \<open>0\<close> the controller returns \<open>p * error\<close> in
  both modes.  With conditional integration the proportional gain is divided by
  \<open>1 + cp * |error|\<close>: for \<open>p = 1\<close>, \<open>cp = 1\<close> and an error of \<open>1\<close> the controller
  returns \<open>1 / 2\<close>.
\<close>

theorem pi_controller_proportional_counterexample:
  "pi_i ex_pd = 0 \<and> use_conditional ex_pd \<and>
   fst (pi_controller ex_K ex_pd 1 0) = 1 / 2 \<and>
   fst (pi_controller ex_K ex_pd 1 0) \<noteq> pi_p ex_pd * (1 - 0)"
  by (simp add: ex_pd_def pi_rudder_data_init_def pi_controller_def Let_def)

text \<open>
  Claim C7, amended.  With an integral gain of \<open>0\<close>, for every reference and measured
  angle: the normal PI with anti wind-up returns exactly \<open>p * error\<close>, where
  \<open>error = reference - measured\<close>; the PI with conditional integration returns
  \<open>p / (1 + cp * |error|) * error\<close>, provided the two denominators \<open>1 + ci * error * error\<close>
  and \<open>1 + cp * |error|\<close> are not zero.
\<close>

theorem pi_controller_zero_integral_gain:
  assumes "pi_i pd = 0"
  shows "(\<not> use_conditional pd \<longrightarrow>
            fst (pi_controller K pd ref meas) = pi_p pd * (ref - meas)) \<and>
         (use_conditional pd \<and> 1 + pi_ci pd * (ref - meas) * (ref - meas) \<noteq> 0 \<and>
            1 + pi_cp pd * \<bar>ref - meas\<bar> \<noteq> 0 \<longrightarrow>
            fst (pi_controller K pd ref meas) =
              pi_p pd / (1 + pi_cp pd * \<bar>ref - meas\<bar>) * (ref - meas))"
  using assms by (auto simp: pi_controller_def Let_def abs_if)

text \<open>Both modes at \<open>p = 1\<close>, \<open>cp = 1\<close> and an error of \<open>1\<close>.\<close>

theorem pi_controller_zero_integral_gain_witness:
  "pi_i ex_pd = 0 \<and> use_conditional ex_pd \<and>
   1 + pi_ci ex_pd * (1 - 0) * (1 - 0) \<noteq> 0 \<and> 1 + pi_cp ex_pd * \<bar>1 - 0\<bar> \<noteq> 0 \<and>
   fst (pi_controller ex_K ex_pd 1 0) = pi_p ex_pd / (1 + pi_cp ex_pd * \<bar>1 - 0\<bar>) * (1 - 0) \<and>
   pi_i (ex_pd\<lparr>use_conditional := False\<rparr>) = 0 \<and>
   \<not> use_conditional (ex_pd\<lparr>use_conditional := False\<rparr>) \<and>
   fst (pi_controller ex_K (ex_pd\<lparr>use_conditional := False\<rparr>) 1 0) = 1"
  using pi_controller_zero_integral_gain[of ex_pd ex_K 1 0]
    pi_controller_zero_integral_gain[of "ex_pd\<lparr>use_conditional := False\<rparr>" ex_K 1 0]
  by (simp add: ex_pd_def pi_rudder_data_init_def)

section \<open>The helmsman's tack and the sail controller\<close>

text \<open>
  Claim C8.  For every angle, \<^const>\<open>helmsman_tack_s2p\<close> returns the rudder of
  \<^const>\<open>helmsman_tack_p2s\<close> at the opposite angle with its sign changed, and the sail of
  \<^const>\<open>helmsman_tack_p2s\<close> at the opposite angle unchanged.
\<close>

theorem helmsman_tack_s2p_symmetry:
  "helmsman_tack_s2p K a =
     (- fst (helmsman_tack_p2s K (- a)), snd (helmsman_tack_p2s K (- a)))"
  by (simp add: helmsman_tack_s2p_def split: prod.split)

text \<open>
  Claim C10.  After \<^const>\<open>set_sail_positions\<close> with a number \<open>n\<close> of positions, the angle
  quantum is \<open>M_PI_F / n\<close> and the command quantum \<open>SAIL_SATURATION / n\<close>, and for a mean
  apparent wind angle \<open>a\<close> the sail controller returns
  \<open>SAIL_SATURATION - floor (|a| / angle quantum) * command quantum\<close>.  The number of
  positions is positive and the sector fits the 32-bit integer that holds it.  With four
  positions and an angle of exactly \<open>M_PI_F / 4\<close> the command is \<open>SAIL_SATURATION\<close> minus
  one command quantum.
\<close>

theorem sail_controller_sector:
  assumes "0 < sint n"
    and "fits_int32 (\<bar>get_app_wind e\<bar> / (M_PI_F / real_of_int (sint n)))"
  shows "position_quantum (set_sail_positions K sd n) = M_PI_F / real_of_int (sint n) \<and>
         command_quantum (set_sail_positions K sd n) = SAIL_SATURATION K / real_of_int (sint n) \<and>
         sail_controller K e (set_sail_positions K sd n) =
           SAIL_SATURATION K -
             real_of_int \<lfloor>\<bar>get_app_wind e\<bar> / (M_PI_F / real_of_int (sint n))\<rfloor> *
               (SAIL_SATURATION K / real_of_int (sint n)) \<and>
         (sint n = 4 \<and> get_app_wind e = M_PI_F / 4 \<longrightarrow>
            sail_controller K e (set_sail_positions K sd n) =
              SAIL_SATURATION K - command_quantum (set_sail_positions K sd n))"
proof -
  let ?q = "\<bar>get_app_wind e\<bar> / (M_PI_F / real_of_int (sint n))"
  have "0 < real_of_int (sint n)" using assms(1) by (simp only: of_int_0_less_iff)
  then have pos: "0 \<le> ?q" by (simp add: M_PI_F_def)
  have abs: "(if get_app_wind e > 0 then get_app_wind e else - get_app_wind e) = \<bar>get_app_wind e\<bar>"
    by simp
  have "sint (float_to_int32 ?q) = \<lfloor>?q\<rfloor>"
    using float_to_int32_trunc[OF assms(2)] pos by simp
  then have main: "sail_controller K e (set_sail_positions K sd n) =
           SAIL_SATURATION K - real_of_int \<lfloor>?q\<rfloor> * (SAIL_SATURATION K / real_of_int (sint n))"
    by (simp add: sail_controller_def set_sail_positions_def Let_def int32_to_float_def abs
             del: of_int_sint)
  have quanta: "position_quantum (set_sail_positions K sd n) = M_PI_F / real_of_int (sint n)"
    "command_quantum (set_sail_positions K sd n) = SAIL_SATURATION K / real_of_int (sint n)"
    by (simp_all add: set_sail_positions_def int32_to_float_def del: of_int_sint)
  have "sail_controller K e (set_sail_positions K sd n) =
          SAIL_SATURATION K - command_quantum (set_sail_positions K sd n)"
    if "sint n = 4" and "get_app_wind e = M_PI_F / 4"
  proof -
    have "?q = 1" using that by (simp add: M_PI_F_def)
    then show ?thesis unfolding main quanta by simp
  qed
  then show ?thesis using main quanta by blast
qed

text \<open>
  With four positions an apparent wind angle of exactly \<open>M_PI_F / 4\<close> is in sector \<open>1\<close>,
  and the command is \<open>SAIL_SATURATION\<close> minus one command quantum.
\<close>

theorem sail_controller_sector_witness:
  "0 < sint (4 :: 32 word) \<and>
   fits_int32 (\<bar>get_app_wind ex_env\<bar> / (M_PI_F / real_of_int (sint (4 :: 32 word)))) \<and>
   \<lfloor>\<bar>get_app_wind ex_env\<bar> / (M_PI_F / real_of_int (sint (4 :: 32 word)))\<rfloor> = 1 \<and>
   sail_controller ex_K ex_env
       (set_sail_positions ex_K (sail_controller_data_init ex_K) 4) =
     SAIL_SATURATION ex_K -
       command_quantum (set_sail_positions ex_K (sail_controller_data_init ex_K) 4)"
  using sail_controller_sector[of 4 ex_env ex_K "sail_controller_data_init ex_K"]
  by (simp add: ex_env_def fits_int32_def M_PI_F_def)

section \<open>From the NED frame to the race frame\<close>

text \<open>
  Claim C9.  For the NED position \<open>(N, E)\<close> that \<^const>\<open>geo_to_ned\<close> computes and the stored
  cosine and sine of the mean wind direction and race origin \<open>(n0, e0)\<close>,
  \<^const>\<open>geo_to_race\<close> returns
  \<open>x = - cos_mwd * N - sin_mwd * E + cos_mwd * n0 + sin_mwd * e0\<close> and
  \<open>y = - sin_mwd * N + cos_mwd * E + sin_mwd * n0 - cos_mwd * e0\<close>, each truncated
  towards zero to an integer number of decimeters, so less than one decimeter away from the
  formula.  The two values fit a 32-bit integer.
\<close>

theorem geo_to_race_rotation:
  assumes "geo_to_ned nav gps = (N, E, D)"
    and "fits_int32
           (- cos_mwd (ned_to_race_s nav) * int32_to_float N
            - sin_mwd (ned_to_race_s nav) * int32_to_float E
            + cos_mwd (ned_to_race_s nav) * int32_to_float (n0_dm (ned_to_race_s nav))
            + sin_mwd (ned_to_race_s nav) * int32_to_float (e0_dm (ned_to_race_s nav)))"
    and "fits_int32
           (- sin_mwd (ned_to_race_s nav) * int32_to_float N
            + cos_mwd (ned_to_race_s nav) * int32_to_float E
            + sin_mwd (ned_to_race_s nav) * int32_to_float (n0_dm (ned_to_race_s nav))
            - cos_mwd (ned_to_race_s nav) * int32_to_float (e0_dm (ned_to_race_s nav)))"
  shows "(let r = ned_to_race_s nav;
              x = - cos_mwd r * int32_to_float N - sin_mwd r * int32_to_float E
                  + cos_mwd r * int32_to_float (n0_dm r)
                  + sin_mwd r * int32_to_float (e0_dm r);
              y = - sin_mwd r * int32_to_float N + cos_mwd r * int32_to_float E
                  + sin_mwd r * int32_to_float (n0_dm r)
                  - cos_mwd r * int32_to_float (e0_dm r)
          in geo_to_race nav gps = (float_to_int32 x, float_to_int32 y) \<and>
             sint (fst (geo_to_race nav gps)) = (if 0 \<le> x then \<lfloor>x\<rfloor> else \<lceil>x\<rceil>) \<and>
             sint (snd (geo_to_race nav gps)) = (if 0 \<le> y then \<lfloor>y\<rfloor> else \<lceil>y\<rceil>) \<and>
             \<bar>int32_to_float (fst (geo_to_race nav gps)) - x\<bar> < 1 \<and>
             \<bar>int32_to_float (snd (geo_to_race nav gps)) - y\<bar> < 1)"
proof -
  define r where "r = ned_to_race_s nav"
  define x where "x = - cos_mwd r * int32_to_float N - sin_mwd r * int32_to_float E
                  + cos_mwd r * int32_to_float (n0_dm r)
                  + sin_mwd r * int32_to_float (e0_dm r)"
  define y where "y = - sin_mwd r * int32_to_float N + cos_mwd r * int32_to_float E
                  + sin_mwd r * int32_to_float (n0_dm r)
                  - cos_mwd r * int32_to_float (e0_dm r)"
  have fx: "fits_int32 x" and fy: "fits_int32 y"
    using assms(2,3) by (simp_all add: x_def y_def r_def)
  have G: "geo_to_race nav gps = (float_to_int32 x, float_to_int32 y)"
    by (simp add: geo_to_race_def assms(1) Let_def x_def y_def r_def)
  have "sint (fst (geo_to_race nav gps)) = (if 0 \<le> x then \<lfloor>x\<rfloor> else \<lceil>x\<rceil>)"
    and "sint (snd (geo_to_race nav gps)) = (if 0 \<le> y then \<lfloor>y\<rfloor> else \<lceil>y\<rceil>)"
    and "\<bar>int32_to_float (fst (geo_to_race nav gps)) - x\<bar> < 1"
    and "\<bar>int32_to_float (snd (geo_to_race nav gps)) - y\<bar> < 1"
    unfolding G fst_conv snd_conv
    using float_to_int32_trunc[OF fx] float_to_int32_trunc[OF fy]
      float_to_int32_close[OF fx] float_to_int32_close[OF fy]
    by blast+
  then show ?thesis
    using G unfolding Let_def x_def y_def r_def by blast
qed

text \<open>
  A boat \<open>30\<close> dm north and \<open>40\<close> dm east of the NED origin, a wind direction with cosine
  \<open>0.6\<close> and sine \<open>0.8\<close>, and a race origin at \<open>(10, 6)\<close>: the formulas give \<open>-39.2\<close>
  and \<open>4.4\<close>, the function returns \<open>-39\<close> and \<open>4\<close>.
\<close>

theorem geo_to_race_rotation_witness:
  "geo_to_ned ex_nav ex_gps = (30, 40, 0) \<and>
   fits_int32 (- 39.2) \<and> fits_int32 4.4 \<and>
   geo_to_race ex_nav ex_gps = (- 39, 4) \<and>
   \<bar>int32_to_float (fst (geo_to_race ex_nav ex_gps)) - (- 39.2)\<bar> < 1 \<and>
   \<bar>int32_to_float (snd (geo_to_race ex_nav ex_gps)) - 4.4\<bar> < 1"
  using geo_to_race_rotation[of ex_nav ex_gps 30 40 0] ex_geo_to_ned
  by (simp add: Let_def ex_nav_def int32_to_float_def float_to_int32_def fits_int32_def)

end
